theory Spec2Isabelle
  imports Complex_Main "HOL-Library.AList" "HOL-Library.Log_Nat"
begin

section \<open>Conventions of the embedding\<close>

text \<open>
  The bot is Python. Its \<^verbatim>\<open>int\<close> values are modelled by \<^typ>\<open>int\<close>, its
  \<^verbatim>\<open>float\<close> values (timestamps, balances, stakes, scores) by the reals they
  denote, of type \<^typ>\<open>real\<close>. The arithmetic of the risk manager on them is
  binary64 arithmetic: every operation rounds its exact result to the nearest
  float (section \<open>Python's float\<close>). The protocol client only compares clock
  readings and subtracts readings of the system clock less than a factor of two
  apart, which binary64 does exactly; its timestamps are used with exact arithmetic.
  A \<^verbatim>\<open>dict\<close> is an association list with distinct keys in insertion
  order (\<open>AList.update\<close> overwrites in place or appends, \<open>AList.delete\<close> removes),
  \<^verbatim>\<open>None\<close> is \<open>None\<close>, a raised exception is the \<open>Inl\<close> branch of a sum.
  Every call reads the clock \<^verbatim>\<open>get_current_timestamp()\<close>; the model passes the
  reading as the argument \<open>now\<close>, one reading per call.
\<close>

datatype error = ZeroDivisionError | TypeError | CancelledError

section \<open>src/utils.py: RateLimiter\<close>

record RateLimiter =
  max_calls :: int
  time_window :: int
  calls :: "real list"

definition RateLimiter_init :: "int \<Rightarrow> int \<Rightarrow> RateLimiter" where
  "RateLimiter_init mc tw = \<lparr>max_calls = mc, time_window = tw, calls = []\<rparr>"

text \<open>\<^verbatim>\<open>can_proceed\<close> first drops the calls that left the window, then compares.\<close>

definition can_proceed :: "real \<Rightarrow> RateLimiter \<Rightarrow> bool \<times> RateLimiter" where
  "can_proceed now rl =
     (let rl' = rl\<lparr>calls := filter (\<lambda>call_time. now - call_time < real_of_int (time_window rl)) (calls rl)\<rparr>
      in (int (length (calls rl')) < max_calls rl', rl'))"

definition record_call :: "real \<Rightarrow> RateLimiter \<Rightarrow> RateLimiter" where
  "record_call now rl = rl\<lparr>calls := calls rl @ [now]\<rparr>"

section \<open>src/websocket_client.py: DerivWebSocketClient\<close>

record ConnectionState =
  connected :: bool
  authenticated :: bool
  last_ping :: real
  reconnect_attempts :: int
  last_error :: "string option"

text \<open>
  A frame is a JSON object. The client only inspects the keys \<^verbatim>\<open>req_id\<close> and
  \<^verbatim>\<open>msg_type\<close>; the rest of the object is carried along as \<open>payload\<close>.
\<close>

record message =
  req_id :: "int option"
  msg_type :: "string option"
  payload :: string

text \<open>
  An \<^verbatim>\<open>asyncio.Future\<close> is pending, holds a result, or is cancelled. The futures
  live in a store (\<open>futures\<close>, indexed by address); the table
  \<^verbatim>\<open>pending_requests\<close> maps a correlation id to the address of its future,
  and the suspended caller holds the same address.
\<close>

datatype future = FPending | FResult message | FCancelled

fun future_done :: "future \<Rightarrow> bool" where
  "future_done FPending = False"
| "future_done _ = True"

datatype task = Running | Cancelled

record client =
  websocket :: bool  \<comment> \<open>\<^verbatim>\<open>self.websocket\<close> is not \<^verbatim>\<open>None\<close>\<close>
  state :: ConnectionState
  message_handlers :: "string list"  \<comment> \<open>the keys of the handler table\<close>
  request_id_counter :: int
  pending_requests :: "(int \<times> nat) list"
  futures :: "future list"
  rate_limiter :: RateLimiter
  heartbeat_task :: "task option"
  subscriptions :: "string list"
  sent :: "message list"  \<comment> \<open>frames written to the socket, oldest first\<close>
  dispatched :: "message list"  \<comment> \<open>frames handed to a registered handler, oldest first\<close>

definition client_init :: client where
  "client_init =
     \<lparr>websocket = False,
      state = \<lparr>connected = False, authenticated = False, last_ping = 0,
               reconnect_attempts = 0, last_error = None\<rparr>,
      message_handlers = [],
      request_id_counter = 0,
      pending_requests = [],
      futures = [],
      rate_limiter = RateLimiter_init 30 60,
      heartbeat_task = None,
      subscriptions = [],
      sent = [],
      dispatched = []\<rparr>"

text \<open>
  \<^verbatim>\<open>send_request\<close> runs up to its \<^verbatim>\<open>await asyncio.wait_for(future, timeout)\<close> in
  one piece (\<open>send_request\<close> below) and is resumed later (\<open>send_request_resume\<close>).
  The first piece either returns (\<open>Returned\<close>, with the seconds it slept before
  returning) or suspends on the future it registered (\<open>Awaiting req_id address\<close>).
  \<open>send_ok\<close> says whether \<^verbatim>\<open>websocket.send\<close> returned normally; when it raises,
  the handler \<^verbatim>\<open>except Exception\<close> pops the id and returns \<^verbatim>\<open>None\<close>.
\<close>

datatype progress = Returned "message option" real | Awaiting int nat

definition register_request :: "client \<Rightarrow> int \<times> nat \<times> client" where
  "register_request c =
     (let c1 = c\<lparr>request_id_counter := request_id_counter c + 1\<rparr>;
          rid = request_id_counter c1;
          addr = length (futures c1)
      in (rid, addr,
          c1\<lparr>futures := futures c1 @ [FPending],
             pending_requests := AList.update rid addr (pending_requests c1)\<rparr>))"

definition send_request :: "message \<Rightarrow> real \<Rightarrow> bool \<Rightarrow> client \<Rightarrow> progress \<times> client" where
  "send_request request now send_ok c =
     (if \<not> connected (state c) \<or> \<not> websocket c then (Returned None 0, c)
      else
        case can_proceed now (rate_limiter c) of (ok, rl) \<Rightarrow>
          if \<not> ok then (Returned None 1, c\<lparr>rate_limiter := rl\<rparr>)
          else
            case register_request (c\<lparr>rate_limiter := rl\<rparr>) of (rid, addr, c2) \<Rightarrow>
              if send_ok
              then (Awaiting rid addr,
                    c2\<lparr>sent := sent c2 @ [request\<lparr>req_id := Some rid\<rparr>],
                       rate_limiter := record_call now (rate_limiter c2)\<rparr>)
              else (Returned None 0,
                    c2\<lparr>pending_requests := AList.delete rid (pending_requests c2)\<rparr>))"

text \<open>
  Resuming the caller suspended on the future at \<open>addr\<close>. A result is returned;
  a cancelled future raises \<^verbatim>\<open>CancelledError\<close>, which is no \<^verbatim>\<open>Exception\<close> and so
  passes both handlers; when the timeout fires on a pending future,
  \<^verbatim>\<open>wait_for\<close> cancels it and the handler pops the id and returns \<^verbatim>\<open>None\<close>.
  \<open>None\<close> as first component: the caller stays suspended.
\<close>

definition send_request_resume ::
    "int \<Rightarrow> nat \<Rightarrow> bool \<Rightarrow> client \<Rightarrow> (error + message option) option \<times> client" where
  "send_request_resume rid addr timed_out c =
     (if addr < length (futures c) then
        (case futures c ! addr of
           FResult response \<Rightarrow> (Some (Inr (Some response)), c)
         | FCancelled \<Rightarrow> (Some (Inl CancelledError), c)
         | FPending \<Rightarrow>
             if timed_out
             then (Some (Inr None),
                   c\<lparr>futures := (futures c)[addr := FCancelled],
                     pending_requests := AList.delete rid (pending_requests c)\<rparr>)
             else (None, c))
      else (None, c))"

text \<open>
  \<^verbatim>\<open>_handle_message\<close>: a frame whose \<^verbatim>\<open>req_id\<close> is in the table pops the entry
  and completes its future; every other frame goes to the handler registered for
  its \<^verbatim>\<open>msg_type\<close>, if any (an exception of the handler is logged).
\<close>

definition dispatch_message :: "message \<Rightarrow> client \<Rightarrow> client" where
  "dispatch_message data c =
     (case msg_type data of
        Some t \<Rightarrow> if t \<in> set (message_handlers c) then c\<lparr>dispatched := dispatched c @ [data]\<rparr> else c
      | None \<Rightarrow> c)"

definition complete_request :: "int \<Rightarrow> nat \<Rightarrow> message \<Rightarrow> client \<Rightarrow> client" where
  "complete_request r addr data c =
     (let c1 = c\<lparr>pending_requests := AList.delete r (pending_requests c)\<rparr>
      in if addr < length (futures c1) \<and> \<not> future_done (futures c1 ! addr)
         then c1\<lparr>futures := (futures c1)[addr := FResult data]\<rparr>
         else c1)"

definition handle_message :: "message \<Rightarrow> client \<Rightarrow> client" where
  "handle_message data c =
     (case req_id data of
        Some r \<Rightarrow>
          (case map_of (pending_requests c) r of
             Some addr \<Rightarrow> complete_request r addr data c
           | None \<Rightarrow> dispatch_message data c)
      | None \<Rightarrow> dispatch_message data c)"

text \<open>
  \<^verbatim>\<open>_message_listener\<close>: each received text is parsed and handled (\<open>None\<close>: the text
  is no JSON, which is logged). The iteration over the socket ends in one of three
  ways: the iterator is exhausted (the peer closed the connection normally) and the
  listener returns, leaving \<^verbatim>\<open>state.connected\<close> as it is; or it raises
  \<^verbatim>\<open>ConnectionClosed\<close>, or any other exception, and the \<^verbatim>\<open>except\<close> branch only
  clears \<^verbatim>\<open>state.connected\<close>.
\<close>

datatype listener_end = EndOfStream | ConnectionClosed | OtherException

definition listener_frame :: "message option \<Rightarrow> client \<Rightarrow> client" where
  "listener_frame raw c = (case raw of None \<Rightarrow> c | Some data \<Rightarrow> handle_message data c)"

definition listener_closed :: "client \<Rightarrow> client" where
  "listener_closed c = c\<lparr>state := (state c)\<lparr>connected := False\<rparr>\<rparr>"

definition message_listener :: "message option list \<Rightarrow> listener_end \<Rightarrow> client \<Rightarrow> client" where
  "message_listener raws ending c =
     (let c' = fold listener_frame raws c
      in case ending of
           EndOfStream \<Rightarrow> c'
         | ConnectionClosed \<Rightarrow> listener_closed c'
         | OtherException \<Rightarrow> listener_closed c')"

text \<open>\<^verbatim>\<open>disconnect\<close> cancels every pending future of the table and clears the table.\<close>

definition cancel_future :: "future \<Rightarrow> future" where
  "cancel_future f = (if \<not> future_done f then FCancelled else f)"

definition cancel_all :: "nat list \<Rightarrow> future list \<Rightarrow> future list" where
  "cancel_all as fs0 =
     fold (\<lambda>addr fs. if addr < length fs then fs[addr := cancel_future (fs ! addr)] else fs) as fs0"

definition disconnect :: "client \<Rightarrow> client" where
  "disconnect c =
     (let c1 = c\<lparr>state := (state c)\<lparr>connected := False, authenticated := False\<rparr>\<rparr>;
          c2 = (case heartbeat_task c1 of None \<Rightarrow> c1 | Some _ \<Rightarrow> c1\<lparr>heartbeat_task := Some Cancelled\<rparr>);
          c3 = c2\<lparr>websocket := False\<rparr>;
          c4 = c3\<lparr>futures := cancel_all (map snd (pending_requests c3)) (futures c3)\<rparr>
      in c4\<lparr>pending_requests := []\<rparr>)"

text \<open>
  \<^verbatim>\<open>connect\<close>, when \<^verbatim>\<open>websockets.connect\<close> succeeds, up to the start of the
  listener and heartbeat tasks; the authentication that follows is a
  \<^verbatim>\<open>send_request\<close> like any other.
\<close>

definition connect_open :: "client \<Rightarrow> client" where
  "connect_open c =
     c\<lparr>websocket := True,
       state := (state c)\<lparr>connected := True, reconnect_attempts := 0\<rparr>,
       heartbeat_task := Some Running\<rparr>"

text \<open>
  The coroutines of the client interleave at their suspension points. A run of the
  client is a list of the pieces executed, each with the clock reading it saw.
\<close>

datatype event =
    Connect
  | Request message bool
  | Frame "message option"
  | Closed
  | Resume int nat bool
  | Disconnect

fun step :: "real \<times> event \<Rightarrow> client \<Rightarrow> client" where
  "step (now, Connect) c = connect_open c"
| "step (now, Request request send_ok) c = snd (send_request request now send_ok c)"
| "step (now, Frame raw) c = listener_frame raw c"
| "step (now, Closed) c = listener_closed c"
| "step (now, Resume rid addr timed_out) c = snd (send_request_resume rid addr timed_out c)"
| "step (now, Disconnect) c = disconnect c"

definition run :: "(real \<times> event) list \<Rightarrow> client \<Rightarrow> client" where
  "run es c = fold step es c"




definition ping :: message where
  "ping = \<lparr>req_id = None, msg_type = None, payload = ''{\"ping\": 1}''\<rparr>"

text \<open>
  Concrete runs used as examples: a first request on a fresh connection and its
  reply, and thirty requests sent within ten seconds.
\<close>

definition pong :: message where
  "pong = \<lparr>req_id = Some 1, msg_type = Some ''ping'', payload = ''{\"ping\": \"pong\"}''\<rparr>"

definition first_request :: "progress \<times> client" where
  "first_request = send_request ping 1 True (run [(0, Connect)] client_init)"

definition thirty_requests :: "(real \<times> event) list" where
  "thirty_requests = map (\<lambda>i. (real i / 3, Request ping True)) [0..<30]"

definition exhausted_client :: client where
  "exhausted_client = run thirty_requests (connect_open client_init)"

section \<open>Python's float\<close>

text \<open>
  A \<^verbatim>\<open>float\<close> is an IEEE 754 binary64 number and is modelled by the real it
  denotes. \<open>fl x\<close> is the binary64 number nearest to the real \<open>x\<close>, ties to the
  even significand: with \<open>e\<close> the binary exponent of \<open>x\<close>
  (\<open>2 ^ e \<le> \<bar>x\<bar> < 2 ^ (e + 1)\<close>), \<open>x\<close> is rounded to a multiple of \<open>2 ^ (e - 52)\<close>.
  Every operation of the risk manager on floats is the exact operation followed by
  \<open>fl\<close>, a decimal literal of the source such as \<^verbatim>\<open>0.8\<close> is \<open>fl 0.8\<close>, and an
  \<^verbatim>\<open>int\<close> that meets a float in an operation is converted by \<open>float_of_int\<close>.
  Comparisons, \<^verbatim>\<open>abs\<close>, \<^verbatim>\<open>min\<close> and \<^verbatim>\<open>max\<close> are exact.
  The exponent range is not bounded: the infinities, NaN, the negative zero and the
  subnormal numbers of binary64 are outside the model.
\<close>

definition round_half_even :: "real \<Rightarrow> int" where
  "round_half_even x =
     (let f = \<lfloor>x\<rfloor>; d = x - real_of_int f
      in if d < 1 / 2 then f else if d > 1 / 2 then f + 1 else if even f then f else f + 1)"

definition float_exponent :: "real \<Rightarrow> int" where
  "float_exponent x =
     (if \<bar>x\<bar> \<ge> 1 then bitlen \<lfloor>\<bar>x\<bar>\<rfloor> - 1 else - bitlen (\<lceil>1 / \<bar>x\<bar>\<rceil> - 1))"

definition fl :: "real \<Rightarrow> real" where
  "fl x =
     (if x = 0 then 0
      else
        let e = float_exponent x - 52
        in if e \<ge> 0 then real_of_int (round_half_even (x / 2 ^ nat e)) * 2 ^ nat e
           else real_of_int (round_half_even (x * 2 ^ nat (- e))) / 2 ^ nat (- e))"

definition fadd :: "real \<Rightarrow> real \<Rightarrow> real" where
  "fadd x y = fl (x + y)"

definition fsub :: "real \<Rightarrow> real \<Rightarrow> real" where
  "fsub x y = fl (x - y)"

definition fmul :: "real \<Rightarrow> real \<Rightarrow> real" where
  "fmul x y = fl (x * y)"

text \<open>The callers of \<open>fdiv\<close> test the divisor: Python raises when it is zero.\<close>

definition fdiv :: "real \<Rightarrow> real \<Rightarrow> real" where
  "fdiv x y = fl (x / y)"

definition float_of_int :: "int \<Rightarrow> real" where
  "float_of_int n = fl (real_of_int n)"

section \<open>Python's rendering of numbers\<close>

definition digit_char :: "nat \<Rightarrow> char" where
  "digit_char n = ''0123456789'' ! n"

fun str_nat :: "nat \<Rightarrow> string" where
  "str_nat n = (if n < 10 then [digit_char n] else str_nat (n div 10) @ [digit_char (n mod 10)])"

declare str_nat.simps [simp del]

definition str_int :: "int \<Rightarrow> string" where
  "str_int i = (if i < 0 then ''-'' @ str_nat (nat (- i)) else str_nat (nat i))"

definition zero_pad :: "nat \<Rightarrow> string \<Rightarrow> string" where
  "zero_pad w s = replicate (w - length s) (CHR ''0'') @ s"

text \<open>
  \<^verbatim>\<open>round(x, p)\<close> rounds the exact value of the float \<open>x\<close> to \<open>p\<close> decimals, ties to
  even, and returns the float nearest to that decimal; the format \<^verbatim>\<open>.pf\<close> prints
  the same decimal.
\<close>

definition py_round :: "nat \<Rightarrow> real \<Rightarrow> real" where
  "py_round p x = fl (real_of_int (round_half_even (x * 10 ^ p)) / 10 ^ p)"

definition fmt_f :: "nat \<Rightarrow> real \<Rightarrow> string" where
  "fmt_f p x =
     (let n = round_half_even (\<bar>x\<bar> * 10 ^ p);
          ip = n div 10 ^ p;
          fp = n mod 10 ^ p
      in (if x < 0 then ''-'' else '''') @ str_nat (nat ip)
         @ (if p = 0 then '''' else ''.'' @ zero_pad p (str_nat (nat fp))))"

definition py_int :: "real \<Rightarrow> int" where
  "py_int x = (if x \<ge> 0 then \<lfloor>x\<rfloor> else \<lceil>x\<rceil>)"

text \<open>\<^verbatim>\<open>str(e)\<close> of the exceptions of the model (the wording of CPython 3.10 and later).\<close>

definition error_message :: "error \<Rightarrow> string" where
  "error_message e =
     (case e of
        ZeroDivisionError \<Rightarrow> ''float division by zero''
      | TypeError \<Rightarrow>
          ''float() argument must be a string or a real number, not ''
            @ [CHR 0x27] @ ''NoneType'' @ [CHR 0x27]
      | CancelledError \<Rightarrow> [])"

section \<open>config/settings.py\<close>

record TradingConfig =
  symbol :: string
  max_stake :: real
  min_confidence :: real
  rsi_period :: int
  rsi_overbought :: real
  rsi_oversold :: real

record RiskConfig =
  max_daily_loss :: real
  max_consecutive_losses :: int
  max_trades_per_hour :: int
  max_trades_per_day :: int
  cooldown_minutes :: int
  min_balance_to_trade :: real
  max_drawdown_percent :: real

text \<open>The defaults of the two dataclasses (no environment variable set).\<close>

definition TradingConfig_default :: TradingConfig where
  "TradingConfig_default =
     \<lparr>symbol = ''1HZ10V'', max_stake = 0.25, min_confidence = fl 0.6, rsi_period = 14,
      rsi_overbought = 70, rsi_oversold = 30\<rparr>"

definition RiskConfig_default :: RiskConfig where
  "RiskConfig_default =
     \<lparr>max_daily_loss = 1.50, max_consecutive_losses = 5, max_trades_per_hour = 15,
      max_trades_per_day = 100, cooldown_minutes = 60, min_balance_to_trade = 2.00,
      max_drawdown_percent = 40\<rparr>"

section \<open>src/signal_generator.py: TradingSignal\<close>

datatype SignalType = CALL | PUT

datatype SignalStrength = WEAK | MODERATE_STRENGTH | STRONG | VERY_STRONG

text \<open>The field \<^verbatim>\<open>additional_data\<close>, a free-form dictionary, is not read by the core.\<close>

record TradingSignal =
  signal_type :: SignalType
  confidence :: real
  strength :: SignalStrength
  duration :: int
  entry_price :: real
  timestamp :: real
  strategy :: string
  rsi_value :: real

section \<open>src/risk_manager.py: RiskManager\<close>

datatype RiskLevel = LOW | MODERATE | HIGH | EXTREME

datatype TradeDecision = APPROVED | REJECTED | REDUCED

record TradeRisk =
  decision :: TradeDecision
  recommended_stake :: real
  risk_level :: RiskLevel
  risk_score :: real
  rejection_reasons :: "string list"
  warnings :: "string list"

record TradingStats =
  total_trades :: int
  winning_trades :: int
  losing_trades :: int
  consecutive_losses :: int
  consecutive_wins :: int
  stats_max_consecutive_losses :: int  \<comment> \<open>\<^verbatim>\<open>TradingStats.max_consecutive_losses\<close>\<close>
  total_profit_loss :: real
  daily_profit_loss :: real
  hourly_trades :: int
  last_trade_time :: real

definition TradingStats_init :: TradingStats where
  "TradingStats_init =
     \<lparr>total_trades = 0, winning_trades = 0, losing_trades = 0, consecutive_losses = 0,
      consecutive_wins = 0, stats_max_consecutive_losses = 0, total_profit_loss = 0,
      daily_profit_loss = 0, hourly_trades = 0, last_trade_time = 0\<rparr>"

record RiskManager =
  risk_config :: RiskConfig
  trading_config :: TradingConfig
  stats :: TradingStats
  initial_balance :: real
  current_balance :: real
  peak_balance :: real
  daily_start_balance :: real
  daily_reset_time :: real
  hourly_trade_count :: int
  hourly_reset_time :: real
  trading_paused :: bool
  pause_reason :: string
  pause_until :: real

text \<open>Midnight UTC after \<open>now\<close>, and the top of the hour after \<open>now\<close>, as timestamps.\<close>

definition get_daily_reset_time :: "real \<Rightarrow> real" where
  "get_daily_reset_time now = real_of_int ((\<lfloor>now / 86400\<rfloor> + 1) * 86400)"

definition get_hourly_reset_time :: "real \<Rightarrow> real" where
  "get_hourly_reset_time now = real_of_int ((\<lfloor>now / 3600\<rfloor> + 1) * 3600)"

text \<open>The constructor, when no risk data was persisted (\<^verbatim>\<open>_load_risk_data\<close> finds no file).\<close>

definition RiskManager_init :: "RiskConfig \<Rightarrow> TradingConfig \<Rightarrow> real \<Rightarrow> RiskManager" where
  "RiskManager_init rc tc now =
     \<lparr>risk_config = rc, trading_config = tc, stats = TradingStats_init,
      initial_balance = 0, current_balance = 0, peak_balance = 0, daily_start_balance = 0,
      daily_reset_time = get_daily_reset_time now, hourly_trade_count = 0,
      hourly_reset_time = get_hourly_reset_time now,
      trading_paused = False, pause_reason = [], pause_until = 0\<rparr>"

definition update_peak_balance :: "RiskManager \<Rightarrow> RiskManager" where
  "update_peak_balance rm =
     (if current_balance rm > peak_balance rm then rm\<lparr>peak_balance := current_balance rm\<rparr> else rm)"

definition check_daily_reset :: "real \<Rightarrow> RiskManager \<Rightarrow> RiskManager" where
  "check_daily_reset now rm =
     (if now \<ge> daily_reset_time rm
      then rm\<lparr>stats := (stats rm)\<lparr>daily_profit_loss := 0\<rparr>,
              daily_start_balance := current_balance rm,
              daily_reset_time := get_daily_reset_time now\<rparr>
      else rm)"

definition check_hourly_reset :: "real \<Rightarrow> RiskManager \<Rightarrow> RiskManager" where
  "check_hourly_reset now rm =
     (if now \<ge> hourly_reset_time rm
      then rm\<lparr>hourly_trade_count := 0, hourly_reset_time := get_hourly_reset_time now\<rparr>
      else rm)"

definition get_daily_trade_count :: "RiskManager \<Rightarrow> int" where
  "get_daily_trade_count rm = total_trades (stats rm)"

definition get_seconds_until_daily_reset :: "real \<Rightarrow> RiskManager \<Rightarrow> int" where
  "get_seconds_until_daily_reset now rm = py_int (fsub (daily_reset_time rm) now)"

definition pause_trading :: "string \<Rightarrow> int \<Rightarrow> real \<Rightarrow> RiskManager \<Rightarrow> RiskManager" where
  "pause_trading reason duration_seconds now rm =
     rm\<lparr>trading_paused := True, pause_reason := reason,
        pause_until := fadd now (float_of_int duration_seconds)\<rparr>"

definition resume_trading :: "RiskManager \<Rightarrow> RiskManager" where
  "resume_trading rm = rm\<lparr>trading_paused := False, pause_reason := [], pause_until := 0\<rparr>"

text \<open>
  The assessors return (risk score, warnings, rejections).
  \<^verbatim>\<open>_assess_balance_risk\<close> divides by the balance and raises
  \<^verbatim>\<open>ZeroDivisionError\<close> when it is zero.
\<close>

definition assess_balance_risk :: "RiskManager \<Rightarrow> error + real \<times> string list \<times> string list" where
  "assess_balance_risk rm =
     (let (risk_score, warns, rejections) =
            (if current_balance rm < min_balance_to_trade (risk_config rm)
             then (fadd 0 50, [],
                   [''Balance too low: $'' @ fmt_f 2 (current_balance rm) @ '' < $''
                      @ fmt_f 2 (min_balance_to_trade (risk_config rm))])
             else if current_balance rm < fmul (min_balance_to_trade (risk_config rm)) 1.5
             then (fadd 0 20, [''Balance approaching minimum threshold''], [])
             else (0, [], []))
      in if current_balance rm = 0 then Inl ZeroDivisionError
         else
           let stake_percentage = fmul (fdiv (max_stake (trading_config rm)) (current_balance rm)) 100
           in if stake_percentage > 10
              then Inr (fadd risk_score (min (fsub stake_percentage 10) 25),
                        warns @ [''High stake percentage: '' @ fmt_f 1 stake_percentage @ ''% of balance''],
                        rejections)
              else Inr (risk_score, warns, rejections))"

definition assess_daily_risk :: "RiskManager \<Rightarrow> real \<times> string list \<times> string list" where
  "assess_daily_risk rm =
     (let dpl = daily_profit_loss (stats rm);
          mdl = max_daily_loss (risk_config rm);
          (risk_score, warns, rejections) =
            (if \<bar>dpl\<bar> \<ge> mdl
             then (if dpl < 0
                   then (fadd 0 50, [], [''Daily loss limit reached: $'' @ fmt_f 2 \<bar>dpl\<bar>])
                   else (0, [], []))
             else if \<bar>dpl\<bar> \<ge> fmul mdl (fl 0.8) then (fadd 0 30, [''Approaching daily loss limit''], [])
             else if \<bar>dpl\<bar> \<ge> fmul mdl (fl 0.6) then (fadd 0 15, [''60% of daily loss limit used''], [])
             else (0, [], []));
          daily_trades = get_daily_trade_count rm
      in if daily_trades \<ge> max_trades_per_day (risk_config rm)
         then (fadd risk_score 30, warns,
               rejections @ [''Daily trade limit reached: '' @ str_int daily_trades])
         else if real_of_int daily_trades
                   \<ge> fmul (float_of_int (max_trades_per_day (risk_config rm))) (fl 0.9)
         then (fadd risk_score 15, warns @ [''Approaching daily trade limit''], rejections)
         else (risk_score, warns, rejections))"

definition assess_consecutive_risk :: "RiskManager \<Rightarrow> real \<times> string list \<times> string list" where
  "assess_consecutive_risk rm =
     (let cl = consecutive_losses (stats rm); mcl = max_consecutive_losses (risk_config rm)
      in if cl \<ge> mcl then (fadd 0 40, [], [''Consecutive loss limit reached: '' @ str_int cl])
         else if cl \<ge> mcl - 1 then (fadd 0 25, [''One loss away from consecutive loss limit''], [])
         else if cl \<ge> mcl - 2 then (fadd 0 15, [''Approaching consecutive loss limit''], [])
         else (0, [], []))"

definition assess_frequency_risk :: "RiskManager \<Rightarrow> real \<times> string list \<times> string list" where
  "assess_frequency_risk rm =
     (let htc = hourly_trade_count rm; mth = max_trades_per_hour (risk_config rm)
      in if htc \<ge> mth then (fadd 0 25, [], [''Hourly trade limit reached: '' @ str_int htc])
         else if real_of_int htc \<ge> fmul (float_of_int mth) (fl 0.9)
         then (fadd 0 10, [''Approaching hourly trade limit''], [])
         else (0, [], []))"

text \<open>The drawdown in percent; its two callers test that the peak balance is positive.\<close>

definition current_drawdown :: "RiskManager \<Rightarrow> real" where
  "current_drawdown rm =
     fmul (fdiv (fsub (peak_balance rm) (current_balance rm)) (peak_balance rm)) 100"

definition assess_drawdown_risk :: "RiskManager \<Rightarrow> real \<times> string list \<times> string list" where
  "assess_drawdown_risk rm =
     (if peak_balance rm > 0
      then
        let dd = current_drawdown rm; mdp = max_drawdown_percent (risk_config rm)
        in if dd \<ge> mdp then (fadd 0 50, [], [''Maximum drawdown exceeded: '' @ fmt_f 1 dd @ ''%''])
           else if dd \<ge> fmul mdp (fl 0.8) then (fadd 0 30, [''High drawdown: '' @ fmt_f 1 dd @ ''%''], [])
           else if dd \<ge> fmul mdp (fl 0.6)
           then (fadd 0 15, [''Moderate drawdown: '' @ fmt_f 1 dd @ ''%''], [])
           else (0, [], [])
      else (0, [], []))"

definition assess_signal_risk :: "TradingSignal \<Rightarrow> real \<times> string list" where
  "assess_signal_risk signal =
     (let (risk_score, warns) =
            (if confidence signal < fl 0.7
             then (fadd 0 (fmul (fsub (fl 0.7) (confidence signal)) 30),
                   if confidence signal < fl 0.6
                   then [''Low confidence signal: '' @ fmt_f 2 (confidence signal)] else [])
             else (0, []))
      in if duration signal \<le> 3
         then (fadd risk_score 5, warns @ [''Very short duration signal''])
         else (risk_score, warns))"

text \<open>
  \<^verbatim>\<open>assess_trade_risk\<close>. \<open>refresh\<close> is the first four statements of its body;
  \<open>decide\<close> is the part after the six assessments (the stake it starts from is the
  configured \<^verbatim>\<open>max_stake\<close>); \<open>assess_all\<close> runs the assessments in the order of the
  source and adds their scores in that order; \<open>assess_trade_risk_body\<close> is the body
  of the \<^verbatim>\<open>try\<close>, with the exception as \<open>Inl\<close> and the state as the exception left
  it; \<open>assess_trade_risk\<close> adds the \<^verbatim>\<open>except\<close> clause.
\<close>

definition refresh :: "real \<Rightarrow> real \<Rightarrow> RiskManager \<Rightarrow> RiskManager" where
  "refresh balance now rm =
     check_hourly_reset now (check_daily_reset now (update_peak_balance (rm\<lparr>current_balance := balance\<rparr>)))"

definition decide :: "real \<Rightarrow> real \<Rightarrow> string list \<Rightarrow> string list \<Rightarrow> TradeRisk" where
  "decide stake_limit score rejections warns =
     (if rejections \<noteq> []
      then \<lparr>decision = REJECTED, recommended_stake = py_round 2 0, risk_level = EXTREME,
            risk_score = py_round 1 score, rejection_reasons = rejections, warnings = warns\<rparr>
      else
        let stake_multiplier = max (fl 0.1) (fsub 1 (fdiv score 100));
            stake = min (fmul stake_limit stake_multiplier) stake_limit
        in if score \<ge> 75
           then \<lparr>decision = REJECTED, recommended_stake = py_round 2 0, risk_level = EXTREME,
                 risk_score = py_round 1 score,
                 rejection_reasons = rejections @ [''Risk score too high''], warnings = warns\<rparr>
           else if score \<ge> 50
           then \<lparr>decision = (if stake_multiplier < fl 0.8 then REDUCED else APPROVED),
                 recommended_stake = py_round 2 stake, risk_level = HIGH,
                 risk_score = py_round 1 score, rejection_reasons = rejections, warnings = warns\<rparr>
           else if score \<ge> 25
           then \<lparr>decision = (if stake_multiplier < fl 0.9 then REDUCED else APPROVED),
                 recommended_stake = py_round 2 stake, risk_level = MODERATE,
                 risk_score = py_round 1 score, rejection_reasons = rejections, warnings = warns\<rparr>
           else \<lparr>decision = APPROVED, recommended_stake = py_round 2 stake, risk_level = LOW,
                 risk_score = py_round 1 score, rejection_reasons = rejections, warnings = warns\<rparr>)"

definition rejected_outright :: "string list \<Rightarrow> TradeRisk" where
  "rejected_outright reasons =
     \<lparr>decision = REJECTED, recommended_stake = 0, risk_level = EXTREME, risk_score = 100,
      rejection_reasons = reasons, warnings = []\<rparr>"

definition assess_all :: "TradingSignal \<Rightarrow> RiskManager \<Rightarrow> error + TradeRisk" where
  "assess_all signal rm =
     (case assess_balance_risk rm of
        Inl e \<Rightarrow> Inl e
      | Inr (balance_risk, balance_warnings, balance_rejections) \<Rightarrow>
          let (daily_risk, daily_warnings, daily_rejections) = assess_daily_risk rm;
              (consecutive_risk, consecutive_warnings, consecutive_rejections) = assess_consecutive_risk rm;
              (frequency_risk, frequency_warnings, frequency_rejections) = assess_frequency_risk rm;
              (drawdown_risk, drawdown_warnings, drawdown_rejections) = assess_drawdown_risk rm;
              (signal_risk, signal_warnings) = assess_signal_risk signal
          in Inr (decide (max_stake (trading_config rm))
                    (fadd (fadd (fadd (fadd (fadd (fadd 0 balance_risk) daily_risk) consecutive_risk)
                                   frequency_risk) drawdown_risk) signal_risk)
                    (balance_rejections @ daily_rejections @ consecutive_rejections
                       @ frequency_rejections @ drawdown_rejections)
                    (balance_warnings @ daily_warnings @ consecutive_warnings
                       @ frequency_warnings @ drawdown_warnings @ signal_warnings)))"

definition assess_trade_risk_body ::
    "TradingSignal \<Rightarrow> real \<Rightarrow> real \<Rightarrow> RiskManager \<Rightarrow> (error + TradeRisk) \<times> RiskManager" where
  "assess_trade_risk_body signal balance now rm =
     (let rm1 = refresh balance now rm
      in if trading_paused rm1 \<and> now < pause_until rm1
         then (Inr (rejected_outright [''Trading paused: '' @ pause_reason rm1]), rm1)
         else
           let rm2 = (if trading_paused rm1 then resume_trading rm1 else rm1)
           in (assess_all signal rm2, rm2))"

definition assess_trade_risk ::
    "TradingSignal \<Rightarrow> real \<Rightarrow> real \<Rightarrow> RiskManager \<Rightarrow> TradeRisk \<times> RiskManager" where
  "assess_trade_risk signal balance now rm =
     (case assess_trade_risk_body signal balance now rm of
        (Inr risk, rm') \<Rightarrow> (risk, rm')
      | (Inl e, rm') \<Rightarrow> (rejected_outright [''Risk assessment error: '' @ error_message e], rm'))"

text \<open>
  \<^verbatim>\<open>record_trade_result\<close> updates the statistics (\<open>update_trade_stats\<close>) and then
  checks the pause conditions, in the order of the source: a later condition that
  holds overwrites the pause set by an earlier one.
  Saving the data to a file has no effect on the manager in memory and is left out.
\<close>

definition check_auto_pause_conditions :: "real \<Rightarrow> RiskManager \<Rightarrow> RiskManager" where
  "check_auto_pause_conditions now rm =
     (let rm1 = (if consecutive_losses (stats rm) \<ge> max_consecutive_losses (risk_config rm)
                 then pause_trading (''Consecutive loss limit reached: '' @ str_int (consecutive_losses (stats rm)))
                        (cooldown_minutes (risk_config rm) * 60) now rm
                 else rm);
          rm2 = (if \<bar>daily_profit_loss (stats rm1)\<bar> \<ge> max_daily_loss (risk_config rm1)
                      \<and> daily_profit_loss (stats rm1) < 0
                 then pause_trading (''Daily loss limit reached: $'' @ fmt_f 2 \<bar>daily_profit_loss (stats rm1)\<bar>)
                        (get_seconds_until_daily_reset now rm1) now rm1
                 else rm1)
      in if peak_balance rm2 > 0 \<and> current_drawdown rm2 \<ge> max_drawdown_percent (risk_config rm2)
         then pause_trading (''Maximum drawdown exceeded: '' @ fmt_f 1 (current_drawdown rm2) @ ''%'')
                (cooldown_minutes (risk_config rm2) * 60) now rm2
         else rm2)"

definition update_trade_stats :: "real \<Rightarrow> bool \<Rightarrow> real \<Rightarrow> RiskManager \<Rightarrow> RiskManager" where
  "update_trade_stats profit_loss was_winner now rm =
     (let st = stats rm;
          st1 = st\<lparr>total_trades := total_trades st + 1,
                  total_profit_loss := fadd (total_profit_loss st) profit_loss,
                  daily_profit_loss := fadd (daily_profit_loss st) profit_loss,
                  last_trade_time := now\<rparr>;
          rm1 = rm\<lparr>stats := st1, hourly_trade_count := hourly_trade_count rm + 1\<rparr>;
          st2 = (if was_winner
                 then st1\<lparr>winning_trades := winning_trades st1 + 1,
                         consecutive_wins := consecutive_wins st1 + 1,
                         consecutive_losses := 0\<rparr>
                 else
                   let st' = st1\<lparr>losing_trades := losing_trades st1 + 1,
                                consecutive_losses := consecutive_losses st1 + 1,
                                consecutive_wins := 0\<rparr>
                   in if consecutive_losses st' > stats_max_consecutive_losses st'
                      then st'\<lparr>stats_max_consecutive_losses := consecutive_losses st'\<rparr>
                      else st')
      in rm1\<lparr>stats := st2\<rparr>)"

definition record_trade_result :: "real \<Rightarrow> bool \<Rightarrow> real \<Rightarrow> RiskManager \<Rightarrow> RiskManager" where
  "record_trade_result profit_loss was_winner now rm =
     check_auto_pause_conditions now (update_trade_stats profit_loss was_winner now rm)"

definition force_resume_trading :: "RiskManager \<Rightarrow> RiskManager" where
  "force_resume_trading rm = (if trading_paused rm then resume_trading rm else rm)"

text \<open>A signal and a fresh manager with the default configuration, used as examples.\<close>

definition signal_example :: TradingSignal where
  "signal_example =
     \<lparr>signal_type = CALL, confidence = fl 0.8, strength = STRONG, duration = 3,
      entry_price = 1000, timestamp = 1700000000, strategy = ''TEST_STRATEGY'', rsi_value = 25\<rparr>"

definition manager_example :: RiskManager where
  "manager_example = RiskManager_init RiskConfig_default TradingConfig_default 1700000000"

text \<open>A manager one loss away from its limits.\<close>

definition run_down_manager :: RiskManager where
  "run_down_manager =
     manager_example
       \<lparr>stats := TradingStats_init\<lparr>total_trades := 10, losing_trades := 7, winning_trades := 3,
                                     consecutive_losses := 4, daily_profit_loss := - 1.25\<rparr>\<rparr>"

(*DEFS-END*)

section \<open>The protocol client: invariants of a run\<close>









lemma cancel_all_length: "length (cancel_all as fs) = length fs"
  unfolding cancel_all_def by (induction as arbitrary: fs) auto


lemma disconnect_fields:
  "request_id_counter (disconnect c) = request_id_counter c"
  "pending_requests (disconnect c) = []"
  "sent (disconnect c) = sent c"
  "futures (disconnect c) = cancel_all (map snd (pending_requests c)) (futures c)"
  by (simp_all add: disconnect_def Let_def split: option.splits)





lemma send_request_grows:
  "request_id_counter c \<le> request_id_counter (snd (send_request m now ok c))"
  "length (futures c) \<le> length (futures (snd (send_request m now ok c)))"
  by (auto simp: send_request_def register_request_def Let_def split: prod.splits)













lemmas client_eval = run_def connect_open_def client_init_def send_request_def can_proceed_def
  RateLimiter_init_def register_request_def record_call_def ping_def pong_def
  handle_message_def complete_request_def dispatch_message_def listener_closed_def
  listener_frame_def disconnect_def cancel_all_def cancel_future_def send_request_resume_def
  Let_def


lemma cancel_all_nth:
  "a < length fs \<Longrightarrow>
   cancel_all as fs ! a = (if a \<in> set as then cancel_future (fs ! a) else fs ! a)"
  unfolding cancel_all_def
proof (induction as arbitrary: fs)
  case Nil
  then show ?case by simp
next
  case (Cons x as)
  let ?fs = "if x < length fs then fs[x := cancel_future (fs ! x)] else fs"
  have len: "a < length ?fs" using Cons.prems by simp
  have idem: "cancel_future (cancel_future f) = cancel_future f" for f
    by (cases f) (simp_all add: cancel_future_def)
  show ?case
    using Cons.IH[OF len] Cons.prems
    by (auto simp: nth_list_update idem)
qed

lemma send_request_proceeds:
  assumes "connected (state c)" "websocket c"
    and "\<forall>t \<in> set (calls (rate_limiter c)). now - t < real_of_int (time_window (rate_limiter c))"
    and "int (length (calls (rate_limiter c))) < max_calls (rate_limiter c)"
  shows "state (snd (send_request m now True c)) = state c"
    "websocket (snd (send_request m now True c))"
    "request_id_counter (snd (send_request m now True c)) = request_id_counter c + 1"
    "length (sent (snd (send_request m now True c))) = length (sent c) + 1"
    "rate_limiter (snd (send_request m now True c))
       = (rate_limiter c)\<lparr>calls := calls (rate_limiter c) @ [now]\<rparr>"
proof -
  have f: "filter (\<lambda>call_time. now - call_time < real_of_int (time_window (rate_limiter c)))
             (calls (rate_limiter c)) = calls (rate_limiter c)"
    using assms(3) by (simp add: filter_id_conv)
  have cp: "can_proceed now (rate_limiter c) = (True, rate_limiter c)"
    using assms(4) by (simp add: can_proceed_def f)
  show "state (snd (send_request m now True c)) = state c"
    "websocket (snd (send_request m now True c))"
    "request_id_counter (snd (send_request m now True c)) = request_id_counter c + 1"
    "length (sent (snd (send_request m now True c))) = length (sent c) + 1"
    "rate_limiter (snd (send_request m now True c))
       = (rate_limiter c)\<lparr>calls := calls (rate_limiter c) @ [now]\<rparr>"
    using assms(1,2) by (simp_all add: send_request_def cp register_request_def record_call_def Let_def)
qed

lemma run_requests:
  assumes "connected (state c)" "websocket c"
    and "\<forall>t \<in> set (calls (rate_limiter c) @ ts). \<forall>t' \<in> set ts.
           t' - t < real_of_int (time_window (rate_limiter c))"
    and "int (length (calls (rate_limiter c)) + length ts) \<le> max_calls (rate_limiter c)"
  shows "connected (state (run (map (\<lambda>t. (t, Request m True)) ts) c))
    \<and> websocket (run (map (\<lambda>t. (t, Request m True)) ts) c)
    \<and> request_id_counter (run (map (\<lambda>t. (t, Request m True)) ts) c) = request_id_counter c + int (length ts)
    \<and> length (sent (run (map (\<lambda>t. (t, Request m True)) ts) c)) = length (sent c) + length ts
    \<and> rate_limiter (run (map (\<lambda>t. (t, Request m True)) ts) c)
        = (rate_limiter c)\<lparr>calls := calls (rate_limiter c) @ ts\<rparr>"
  using assms
proof (induction ts arbitrary: c)
  case Nil
  then show ?case by (simp add: run_def)
next
  case (Cons t ts)
  let ?c = "snd (send_request m t True c)"
  have a3: "\<forall>x \<in> set (calls (rate_limiter c)). t - x < real_of_int (time_window (rate_limiter c))"
    using Cons.prems(3) by simp
  have a4: "int (length (calls (rate_limiter c))) < max_calls (rate_limiter c)"
    using Cons.prems(4) by simp
  note p = send_request_proceeds[OF Cons.prems(1,2) a3 a4, of m]
  have "connected (state ?c)" using p(1) Cons.prems(1) by simp
  moreover have "\<forall>x \<in> set (calls (rate_limiter ?c) @ ts). \<forall>t' \<in> set ts.
           t' - x < real_of_int (time_window (rate_limiter ?c))"
    using Cons.prems(3) by (simp add: p(5))
  moreover have "int (length (calls (rate_limiter ?c)) + length ts) \<le> max_calls (rate_limiter ?c)"
    using Cons.prems(4) by (simp add: p(5))
  ultimately have ih: "connected (state (run (map (\<lambda>t. (t, Request m True)) ts) ?c))
    \<and> websocket (run (map (\<lambda>t. (t, Request m True)) ts) ?c)
    \<and> request_id_counter (run (map (\<lambda>t. (t, Request m True)) ts) ?c) = request_id_counter ?c + int (length ts)
    \<and> length (sent (run (map (\<lambda>t. (t, Request m True)) ts) ?c)) = length (sent ?c) + length ts
    \<and> rate_limiter (run (map (\<lambda>t. (t, Request m True)) ts) ?c)
        = (rate_limiter ?c)\<lparr>calls := calls (rate_limiter ?c) @ ts\<rparr>"
    using Cons.IH[of ?c] p(2) by blast
  have r: "run (map (\<lambda>t. (t, Request m True)) (t # ts)) c = run (map (\<lambda>t. (t, Request m True)) ts) ?c"
    by (simp add: run_def)
  show ?case unfolding r using ih by (simp add: p)
qed

lemma exhausted_fields:
  "connected (state exhausted_client) \<and> websocket exhausted_client
   \<and> request_id_counter exhausted_client = 30 \<and> length (sent exhausted_client) = 30
   \<and> rate_limiter exhausted_client
       = \<lparr>max_calls = 30, time_window = 60, calls = map (\<lambda>i. real i / 3) [0..<30]\<rparr>"
proof -
  let ?ts = "map (\<lambda>i. real i / 3) [0..<30]"
  have e: "thirty_requests = map (\<lambda>t. (t, Request ping True)) ?ts"
    by (simp add: thirty_requests_def comp_def)
  have b: "\<forall>t \<in> set ?ts. 0 \<le> t \<and> t < 10" by auto
  have w: "\<forall>t \<in> set (calls (rate_limiter (connect_open client_init)) @ ?ts). \<forall>t' \<in> set ?ts.
           t' - t < real_of_int (time_window (rate_limiter (connect_open client_init)))"
  proof (intro ballI)
    fix t t' assume "t \<in> set (calls (rate_limiter (connect_open client_init)) @ ?ts)" "t' \<in> set ?ts"
    then have "0 \<le> t" "t' < 10" using b
      by (auto simp: connect_open_def client_init_def RateLimiter_init_def)
    then show "t' - t < real_of_int (time_window (rate_limiter (connect_open client_init)))"
      by (simp add: connect_open_def client_init_def RateLimiter_init_def)
  qed
  have "connected (state (connect_open client_init))" "websocket (connect_open client_init)"
    "int (length (calls (rate_limiter (connect_open client_init))) + length ?ts)
       \<le> max_calls (rate_limiter (connect_open client_init))"
    by (simp_all add: connect_open_def client_init_def RateLimiter_init_def)
  from run_requests[OF this(1,2) w this(3), of ping]
  show ?thesis
    unfolding exhausted_client_def e
    by (simp add: connect_open_def client_init_def RateLimiter_init_def)
qed

lemma exhausted_blocked:
  "\<not> fst (can_proceed 10 \<lparr>max_calls = 30, time_window = 60, calls = map (\<lambda>i. real i / 3) [0..<30]\<rparr>)"
  "snd (can_proceed 10 \<lparr>max_calls = 30, time_window = 60, calls = map (\<lambda>i. real i / 3) [0..<30]\<rparr>)
     = \<lparr>max_calls = 30, time_window = 60, calls = map (\<lambda>i. real i / 3) [0..<30]\<rparr>"
  "\<not> fst (can_proceed 11 \<lparr>max_calls = 30, time_window = 60, calls = map (\<lambda>i. real i / 3) [0..<30]\<rparr>)"
  by code_simp+


section \<open>The protocol client: requests that are not sent\<close>

text \<open>
  C10. While the client is not connected, or has no websocket, \<^verbatim>\<open>send_request\<close>
  returns \<^verbatim>\<open>None\<close> at once (without sleeping) and the client is left exactly as
  it was: the id counter, the pending table, the futures, the frames sent and the
  rate limiter's record of calls are all unchanged.
\<close>

theorem send_request_not_connected:
  assumes "\<not> connected (state c) \<or> \<not> websocket c"
  shows "send_request request now send_ok c = (Returned None 0, c)"
  using assms by (simp add: send_request_def)

theorem send_request_not_connected_witness:
  "\<not> connected (state client_init)
   \<and> send_request ping 5 True client_init = (Returned None 0, client_init)
   \<and> request_id_counter (snd (send_request ping 5 True client_init)) = 0
   \<and> pending_requests (snd (send_request ping 5 True client_init)) = []
   \<and> calls (rate_limiter (snd (send_request ping 5 True client_init))) = []"
proof -
  have h: "\<not> connected (state client_init)" by (simp add: client_init_def)
  then have "\<not> connected (state client_init) \<or> \<not> websocket client_init" by simp
  from send_request_not_connected[OF this, of ping 5 True] h show ?thesis
    by (simp add: client_init_def RateLimiter_init_def)
qed

section \<open>The protocol client: correlation of requests and responses\<close>







section \<open>The protocol client: a dropped connection\<close>

text \<open>
  C1, as stated, fails: after a request is registered and the listener detects the
  closed connection, the request is still in the pending table, its future is still
  pending, the caller is still suspended, and only its own timeout resolves it.
\<close>

theorem drop_leaves_requests_pending:
  "pending_requests (message_listener [] ConnectionClosed (snd first_request)) = [(1, 0)]
   \<and> futures (message_listener [] ConnectionClosed (snd first_request)) ! 0 = FPending
   \<and> fst (send_request_resume 1 0 False (message_listener [] ConnectionClosed (snd first_request))) = None
   \<and> fst (send_request_resume 1 0 True (message_listener [] ConnectionClosed (snd first_request)))
       = Some (Inr None)"
  by (simp add: first_request_def message_listener_def client_eval)

text \<open>
  C1, amended. When the listener detects the drop (its iteration raises) it only
  clears \<^verbatim>\<open>state.connected\<close>; when the iteration just ends it changes nothing. In
  both cases the pending table and the futures are what the frames handled before
  left. Every request still pending in the client \<open>d\<close> the listener leaves stays
  suspended until its own timeout, which returns \<^verbatim>\<open>None\<close>, cancels its future and
  removes its entry. It is \<^verbatim>\<open>disconnect\<close> that empties the table and cancels every
  pending future registered in it, and the caller suspended on such a future is
  resumed at once with \<^verbatim>\<open>CancelledError\<close>.
\<close>

theorem drop_then_disconnect:
  "pending_requests (message_listener raws ending c) = pending_requests (fold listener_frame raws c)
   \<and> futures (message_listener raws ending c) = futures (fold listener_frame raws c)
   \<and> connected (state (message_listener raws ending c))
       = (ending = EndOfStream \<and> connected (state (fold listener_frame raws c)))
   \<and> (\<forall>(rid, addr) \<in> set (pending_requests (message_listener raws ending c)).
         addr < length (futures (message_listener raws ending c))
         \<and> futures (message_listener raws ending c) ! addr = FPending \<longrightarrow>
           send_request_resume rid addr False (message_listener raws ending c)
             = (None, message_listener raws ending c)
           \<and> send_request_resume rid addr True (message_listener raws ending c)
               = (Some (Inr None),
                  (message_listener raws ending c)
                    \<lparr>futures := (futures (message_listener raws ending c))[addr := FCancelled],
                     pending_requests := AList.delete rid (pending_requests (message_listener raws ending c))\<rparr>))
   \<and> pending_requests (disconnect c) = []
   \<and> (\<forall>(rid, addr) \<in> set (pending_requests c).
         addr < length (futures c) \<and> futures c ! addr = FPending \<longrightarrow>
           futures (disconnect c) ! addr = FCancelled
           \<and> fst (send_request_resume rid addr False (disconnect c)) = Some (Inl CancelledError))"
proof (intro conjI)
  let ?d = "message_listener raws ending c"
  show "pending_requests ?d = pending_requests (fold listener_frame raws c)"
    by (cases ending) (simp_all add: message_listener_def listener_closed_def Let_def)
  show "futures ?d = futures (fold listener_frame raws c)"
    by (cases ending) (simp_all add: message_listener_def listener_closed_def Let_def)
  show "connected (state ?d) = (ending = EndOfStream \<and> connected (state (fold listener_frame raws c)))"
    by (cases ending) (simp_all add: message_listener_def listener_closed_def Let_def)
  show "pending_requests (disconnect c) = []" by (simp add: disconnect_fields)
  show "\<forall>(rid, addr) \<in> set (pending_requests ?d).
          addr < length (futures ?d) \<and> futures ?d ! addr = FPending \<longrightarrow>
            send_request_resume rid addr False ?d = (None, ?d)
            \<and> send_request_resume rid addr True ?d
                = (Some (Inr None),
                   ?d\<lparr>futures := (futures ?d)[addr := FCancelled],
                      pending_requests := AList.delete rid (pending_requests ?d)\<rparr>)"
  proof (intro ballI)
    fix x assume "x \<in> set (pending_requests ?d)"
    obtain rid addr where x: "x = (rid, addr)" by (cases x)
    show "case x of (rid, addr) \<Rightarrow>
            addr < length (futures ?d) \<and> futures ?d ! addr = FPending \<longrightarrow>
              send_request_resume rid addr False ?d = (None, ?d)
              \<and> send_request_resume rid addr True ?d
                  = (Some (Inr None),
                     ?d\<lparr>futures := (futures ?d)[addr := FCancelled],
                        pending_requests := AList.delete rid (pending_requests ?d)\<rparr>)"
      unfolding x by (simp add: send_request_resume_def)
  qed
  show "\<forall>(rid, addr) \<in> set (pending_requests c).
          addr < length (futures c) \<and> futures c ! addr = FPending \<longrightarrow>
            futures (disconnect c) ! addr = FCancelled
            \<and> fst (send_request_resume rid addr False (disconnect c)) = Some (Inl CancelledError)"
  proof (intro ballI)
    fix x assume m: "x \<in> set (pending_requests c)"
    obtain rid addr where x: "x = (rid, addr)" by (cases x)
    have "futures (disconnect c) ! addr = FCancelled
          \<and> fst (send_request_resume rid addr False (disconnect c)) = Some (Inl CancelledError)"
      if h: "addr < length (futures c)" "futures c ! addr = FPending"
    proof -
      have "addr \<in> set (map snd (pending_requests c))" using m x by force
      then have "futures (disconnect c) ! addr = FCancelled"
        using h by (simp add: disconnect_fields cancel_all_nth cancel_future_def)
      moreover have "addr < length (futures (disconnect c))"
        using h(1) by (simp add: disconnect_fields cancel_all_length)
      ultimately show ?thesis by (simp add: send_request_resume_def)
    qed
    then show "case x of (rid, addr) \<Rightarrow>
            addr < length (futures c) \<and> futures c ! addr = FPending \<longrightarrow>
              futures (disconnect c) ! addr = FCancelled
              \<and> fst (send_request_resume rid addr False (disconnect c)) = Some (Inl CancelledError)"
      unfolding x by simp
  qed
qed

theorem drop_then_disconnect_witness:
  "(1, 0) \<in> set (pending_requests (snd first_request))
   \<and> 0 < length (futures (snd first_request)) \<and> futures (snd first_request) ! 0 = FPending
   \<and> pending_requests (message_listener [] ConnectionClosed (snd first_request)) = [(1, 0)]
   \<and> \<not> connected (state (message_listener [] ConnectionClosed (snd first_request)))
   \<and> connected (state (message_listener [] EndOfStream (snd first_request)))
   \<and> fst (send_request_resume 1 0 False (message_listener [] ConnectionClosed (snd first_request))) = None
   \<and> fst (send_request_resume 1 0 True (message_listener [] ConnectionClosed (snd first_request)))
       = Some (Inr None)
   \<and> futures (disconnect (snd first_request)) ! 0 = FCancelled
   \<and> fst (send_request_resume 1 0 False (disconnect (snd first_request))) = Some (Inl CancelledError)
   \<and> pending_requests (disconnect (snd first_request)) = []"
proof -
  let ?c = "snd first_request"
  let ?d = "message_listener [] ConnectionClosed ?c"
  have p: "pending_requests ?c = [(1, 0)]" "0 < length (futures ?c)" "futures ?c ! 0 = FPending"
    "connected (state ?c)"
    by (simp_all add: first_request_def client_eval)
  note t = drop_then_disconnect[of "[]" ConnectionClosed ?c]
  note u = drop_then_disconnect[of "[]" EndOfStream ?c]
  have d1: "pending_requests ?d = [(1, 0)]" using t[THEN conjunct1] p(1) by simp
  have d2: "futures ?d = futures ?c" using t[THEN conjunct2, THEN conjunct1] by simp
  have d3: "\<not> connected (state ?d)" using t[THEN conjunct2, THEN conjunct2, THEN conjunct1] by simp
  have e: "connected (state (message_listener [] EndOfStream ?c))"
    using u[THEN conjunct2, THEN conjunct2, THEN conjunct1] p(4) by simp
  have "(1, 0) \<in> set (pending_requests ?d)" using d1 by simp
  from bspec[OF t[THEN conjunct2, THEN conjunct2, THEN conjunct2, THEN conjunct1] this]
  have r: "fst (send_request_resume 1 0 False ?d) = None"
    "fst (send_request_resume 1 0 True ?d) = Some (Inr None)"
    using d2 p(2,3) by simp_all
  have x1: "pending_requests (disconnect ?c) = []"
    by (rule t[THEN conjunct2, THEN conjunct2, THEN conjunct2, THEN conjunct2, THEN conjunct1])
  have "(1, 0) \<in> set (pending_requests ?c)" using p(1) by simp
  from bspec[OF t[THEN conjunct2, THEN conjunct2, THEN conjunct2, THEN conjunct2, THEN conjunct2] this]
  have x2: "futures (disconnect ?c) ! 0 = FCancelled"
    "fst (send_request_resume 1 0 False (disconnect ?c)) = Some (Inl CancelledError)"
    using p(2,3) by simp_all
  show ?thesis using p d1 d3 e r x1 x2 by simp
qed

section \<open>The protocol client: the rate limit\<close>

text \<open>
  C2, amended. A call issued while the client is connected and the rate limiter
  refuses (30 calls in the last 60 seconds) sleeps one second and returns
  \<^verbatim>\<open>None\<close>: no id is allocated, nothing is registered or sent, and the limiter is
  not asked again; only the limiter's list of calls is pruned.
\<close>

theorem rate_limited_request:
  assumes "connected (state c)" "websocket c" "\<not> fst (can_proceed now (rate_limiter c))"
  shows "send_request request now send_ok c
           = (Returned None 1, c\<lparr>rate_limiter := snd (can_proceed now (rate_limiter c))\<rparr>)"
  using assms by (cases "can_proceed now (rate_limiter c)") (simp add: send_request_def)

theorem rate_limited_request_witness:
  "connected (state exhausted_client) \<and> websocket exhausted_client
   \<and> \<not> fst (can_proceed 10 (rate_limiter exhausted_client))
   \<and> send_request ping 10 True exhausted_client
       = (Returned None 1, exhausted_client\<lparr>rate_limiter := snd (can_proceed 10 (rate_limiter exhausted_client))\<rparr>)"
proof -
  have h: "connected (state exhausted_client)" "websocket exhausted_client"
    "\<not> fst (can_proceed 10 (rate_limiter exhausted_client))"
    using exhausted_fields exhausted_blocked(1) by simp_all
  from rate_limited_request[OF h, of ping True] h show ?thesis by simp
qed

text \<open>
  C2, as stated, fails: after thirty requests within ten seconds the thirty-first,
  issued at second 10, returns \<^verbatim>\<open>None\<close> after one second of sleep, although no slot
  has become free by then (the limiter still refuses at second 11); no id was
  allocated and nothing was sent.
\<close>

theorem thirty_first_request_dropped:
  "fst (send_request ping 10 True exhausted_client) = Returned None 1
   \<and> request_id_counter (snd (send_request ping 10 True exhausted_client)) = 30
   \<and> length (sent (snd (send_request ping 10 True exhausted_client))) = 30
   \<and> \<not> fst (can_proceed 11 (rate_limiter (snd (send_request ping 10 True exhausted_client))))"
proof -
  have h: "connected (state exhausted_client)" "websocket exhausted_client"
    "\<not> fst (can_proceed 10 (rate_limiter exhausted_client))"
    using exhausted_fields exhausted_blocked(1) by simp_all
  have "send_request ping 10 True exhausted_client
          = (Returned None 1, exhausted_client\<lparr>rate_limiter := snd (can_proceed 10 (rate_limiter exhausted_client))\<rparr>)"
    using h by (cases "can_proceed 10 (rate_limiter exhausted_client)") (simp add: send_request_def)
  then show ?thesis using exhausted_fields exhausted_blocked by simp
qed

section \<open>Python's float: rounding is monotone\<close>

lemma round_half_even_cases:
  "round_half_even x = \<lfloor>x\<rfloor> \<and> x - real_of_int \<lfloor>x\<rfloor> \<le> 1 / 2
   \<or> round_half_even x = \<lfloor>x\<rfloor> + 1 \<and> x - real_of_int \<lfloor>x\<rfloor> \<ge> 1 / 2"
  by (simp add: round_half_even_def Let_def)

lemma round_half_even_of_int: "round_half_even (real_of_int n) = n"
  by (simp add: round_half_even_def)

lemma round_half_even_mono:
  assumes "x \<le> y" shows "round_half_even x \<le> round_half_even y"
proof (cases "\<lfloor>x\<rfloor> = \<lfloor>y\<rfloor>")
  case True
  then show ?thesis using assms by (auto simp: round_half_even_def Let_def)
next
  case False
  then have "\<lfloor>x\<rfloor> + 1 \<le> \<lfloor>y\<rfloor>" using floor_mono[OF assms] by linarith
  moreover have "round_half_even x \<le> \<lfloor>x\<rfloor> + 1" using round_half_even_cases[of x] by linarith
  moreover have "\<lfloor>y\<rfloor> \<le> round_half_even y" using round_half_even_cases[of y] by linarith
  ultimately show ?thesis by linarith
qed

lemma round_half_even_ge: "real_of_int n \<le> x \<Longrightarrow> n \<le> round_half_even x"
  using round_half_even_mono[of "real_of_int n" x] by (simp add: round_half_even_of_int)

lemma round_half_even_le: "x \<le> real_of_int n \<Longrightarrow> round_half_even x \<le> n"
  using round_half_even_mono[of x "real_of_int n"] by (simp add: round_half_even_of_int)

text \<open>\<open>float_exponent x\<close> is the binary exponent of \<open>x\<close>.\<close>

lemma float_exponent_bounds:
  assumes "x \<noteq> 0"
  shows "2 powi float_exponent x \<le> \<bar>x\<bar>" "\<bar>x\<bar> < 2 powi (float_exponent x + 1)"
proof -
  let ?a = "\<bar>x\<bar>"
  have apos: "?a > 0" using assms by simp
  have "2 powi float_exponent x \<le> \<bar>x\<bar> \<and> \<bar>x\<bar> < 2 powi (float_exponent x + 1)"
  proof (cases "?a \<ge> 1")
    case True
    let ?n = "\<lfloor>?a\<rfloor>"
    have n: "?n > 0" using True by linarith
    have e: "float_exponent x = bitlen ?n - 1" using True by (simp add: float_exponent_def)
    have b1: "bitlen ?n \<ge> 1" using n by (simp add: bitlen_alt_def)
    note bb = bitlen_bounds[OF n]
    have "real_of_int (2 ^ nat (bitlen ?n - 1)) \<le> real_of_int ?n" using bb by linarith
    then have l: "2 ^ nat (bitlen ?n - 1) \<le> ?a"
      by (simp only: of_int_power of_int_numeral; linarith)
    have "?n + 1 \<le> 2 ^ nat (bitlen ?n)" using bb by linarith
    then have "real_of_int (?n + 1) \<le> real_of_int (2 ^ nat (bitlen ?n))" by linarith
    then have u: "?a < 2 ^ nat (bitlen ?n)"
      by (simp only: of_int_power of_int_numeral; linarith)
    show ?thesis using l u b1 by (simp add: e power_int_def)
  next
    case False
    let ?y = "1 / ?a"
    let ?m = "\<lceil>?y\<rceil> - 1"
    have y: "?y > 1" using False apos by simp
    have m: "?m > 0" using y by linarith
    have e: "float_exponent x = - bitlen ?m" using False by (simp add: float_exponent_def)
    have b1: "bitlen ?m \<ge> 1" using m by (simp add: bitlen_alt_def)
    note bb = bitlen_bounds[OF m]
    have my: "real_of_int ?m < ?y" "?y \<le> real_of_int (?m + 1)" by linarith+
    have "real_of_int (?m + 1) \<le> real_of_int (2 ^ nat (bitlen ?m))" using bb by linarith
    then have u: "?y \<le> 2 ^ nat (bitlen ?m)" using my
      by (simp only: of_int_power of_int_numeral; linarith)
    have "real_of_int (2 ^ nat (bitlen ?m - 1)) \<le> real_of_int ?m" using bb by linarith
    then have l: "2 ^ nat (bitlen ?m - 1) < ?y" using my
      by (simp only: of_int_power of_int_numeral; linarith)
    have 1: "2 powi float_exponent x \<le> ?a"
    proof -
      have "1 / 2 ^ nat (bitlen ?m) \<le> 1 / ?y" using u y apos by (intro divide_left_mono) auto
      then show ?thesis using b1 apos by (simp add: e power_int_def power_inverse field_simps)
    qed
    have 2: "?a < 2 powi (float_exponent x + 1)"
    proof -
      have "1 / ?y < 1 / 2 ^ nat (bitlen ?m - 1)" using l y apos by (intro divide_strict_left_mono) auto
      moreover have "(2::real) powi (float_exponent x + 1) = 1 / 2 ^ nat (bitlen ?m - 1)"
        using b1 by (auto simp: e power_int_def power_inverse field_simps nat_diff_distrib)
      ultimately show ?thesis using apos by simp
    qed
    show ?thesis using 1 2 by simp
  qed
  then show "2 powi float_exponent x \<le> \<bar>x\<bar>" "\<bar>x\<bar> < 2 powi (float_exponent x + 1)" by simp_all
qed

text \<open>\<open>fl x\<close> is \<open>x\<close> rounded to a multiple of the unit in the last place.\<close>

lemma fl_powi:
  assumes "x \<noteq> 0"
  shows "fl x = real_of_int (round_half_even (x / 2 powi (float_exponent x - 52)))
                  * 2 powi (float_exponent x - 52)"
proof (cases "float_exponent x - 52 \<ge> 0")
  case True
  then show ?thesis using assms by (simp add: fl_def Let_def power_int_def)
next
  case False
  then show ?thesis using assms
    by (simp add: fl_def Let_def power_int_def power_inverse field_simps)
qed

lemma powi2_pos: "(2::real) powi e > 0"
  by (simp add: power_int_def)

lemma powi2_split:
  "(2::real) powi (e + 1) = 2 powi (e - 52) * 2 ^ 53" "(2::real) powi e = 2 powi (e - 52) * 2 ^ 52"
  using power_int_add[of "2::real" "e - 52" 53] power_int_add[of "2::real" "e - 52" 52]
  by (simp_all add: add.commute)

lemma powi2_mono: "a \<le> b \<Longrightarrow> (2::real) powi a \<le> 2 powi b"
  by (rule power_int_increasing) simp_all

lemma fl_pos_bounds:
  assumes "0 < x"
  shows "2 powi float_exponent x \<le> fl x" "fl x \<le> 2 powi (float_exponent x + 1)"
proof -
  let ?e = "float_exponent x"
  let ?u = "(2::real) powi (?e - 52)"
  have u: "?u > 0" by (rule powi2_pos)
  have x: "x \<noteq> 0" using assms by simp
  note b = float_exponent_bounds[OF x]
  have "?u * 2 ^ 52 \<le> x" using b(1) assms powi2_split(2)[of ?e] by simp
  then have "real_of_int (2 ^ 52) \<le> x / ?u" using u by (simp add: field_simps)
  then have l: "2 ^ 52 \<le> round_half_even (x / ?u)" by (rule round_half_even_ge)
  have "x \<le> ?u * 2 ^ 53" using b(2) assms powi2_split(1)[of ?e] by simp
  then have "x / ?u \<le> real_of_int (2 ^ 53)" using u by (simp add: field_simps)
  then have h: "round_half_even (x / ?u) \<le> 2 ^ 53" by (rule round_half_even_le)
  have "real_of_int (2 ^ 52) * ?u \<le> real_of_int (round_half_even (x / ?u)) * ?u"
    using l u by (intro mult_right_mono) simp_all
  then show "2 powi ?e \<le> fl x" by (simp add: fl_powi[OF x] powi2_split(2)[of ?e] mult.commute)
  have "real_of_int (round_half_even (x / ?u)) * ?u \<le> real_of_int (2 ^ 53) * ?u"
    using h u by (intro mult_right_mono) simp_all
  then show "fl x \<le> 2 powi (?e + 1)" by (simp add: fl_powi[OF x] powi2_split(1)[of ?e] mult.commute)
qed

lemma fl_neg_bounds:
  assumes "x < 0"
  shows "- (2 powi (float_exponent x + 1)) \<le> fl x" "fl x \<le> - (2 powi float_exponent x)"
proof -
  let ?e = "float_exponent x"
  let ?u = "(2::real) powi (?e - 52)"
  have u: "?u > 0" by (rule powi2_pos)
  have x: "x \<noteq> 0" using assms by simp
  note b = float_exponent_bounds[OF x]
  have "x \<le> - (?u * 2 ^ 52)" using b(1) assms powi2_split(2)[of ?e] by simp
  then have "x / ?u \<le> real_of_int (- (2 ^ 52))" using u by (simp add: field_simps)
  then have h: "round_half_even (x / ?u) \<le> - (2 ^ 52)" by (rule round_half_even_le)
  have "- (?u * 2 ^ 53) \<le> x" using b(2) assms powi2_split(1)[of ?e] by simp
  then have "real_of_int (- (2 ^ 53)) \<le> x / ?u" using u by (simp add: field_simps)
  then have l: "- (2 ^ 53) \<le> round_half_even (x / ?u)" by (rule round_half_even_ge)
  have "real_of_int (round_half_even (x / ?u)) * ?u \<le> real_of_int (- (2 ^ 52)) * ?u"
    using h u by (intro mult_right_mono) simp_all
  then show "fl x \<le> - (2 powi ?e)" by (simp add: fl_powi[OF x] powi2_split(2)[of ?e] mult.commute)
  have "real_of_int (- (2 ^ 53)) * ?u \<le> real_of_int (round_half_even (x / ?u)) * ?u"
    using l u by (intro mult_right_mono) simp_all
  then show "- (2 powi (?e + 1)) \<le> fl x" by (simp add: fl_powi[OF x] powi2_split(1)[of ?e] mult.commute)
qed

lemma fl_mono_pos:
  assumes "0 < x" "x \<le> y"
  shows "fl x \<le> fl y"
proof -
  have y: "0 < y" using assms by simp
  have nz: "x \<noteq> 0" "y \<noteq> 0" using assms by simp_all
  note bx = float_exponent_bounds[OF nz(1)] and by' = float_exponent_bounds[OF nz(2)]
  have "2 powi float_exponent x < (2::real) powi (float_exponent y + 1)"
    using bx(1) by'(2) assms by simp
  then have le: "float_exponent x \<le> float_exponent y"
    using powi2_mono[of "float_exponent y + 1" "float_exponent x"]
    by (cases "float_exponent x \<le> float_exponent y") auto
  show ?thesis
  proof (cases "float_exponent x = float_exponent y")
    case True
    have "x / 2 powi (float_exponent y - 52) \<le> y / 2 powi (float_exponent y - 52)"
      using assms(2) powi2_pos[of "float_exponent y - 52"] by (simp add: divide_right_mono)
    then have "round_half_even (x / 2 powi (float_exponent y - 52))
                 \<le> round_half_even (y / 2 powi (float_exponent y - 52))"
      by (rule round_half_even_mono)
    then show ?thesis using powi2_pos[of "float_exponent y - 52"]
      by (simp add: fl_powi[OF nz(1)] fl_powi[OF nz(2)] True)
  next
    case False
    then have "float_exponent x + 1 \<le> float_exponent y" using le by simp
    then have "(2::real) powi (float_exponent x + 1) \<le> 2 powi float_exponent y" by (rule powi2_mono)
    then show ?thesis using fl_pos_bounds(2)[OF assms(1)] fl_pos_bounds(1)[OF y] by linarith
  qed
qed

lemma fl_mono_neg:
  assumes "y < 0" "x \<le> y"
  shows "fl x \<le> fl y"
proof -
  have x: "x < 0" using assms by simp
  have nz: "x \<noteq> 0" "y \<noteq> 0" using assms by simp_all
  note bx = float_exponent_bounds[OF nz(1)] and by' = float_exponent_bounds[OF nz(2)]
  have "2 powi float_exponent y < (2::real) powi (float_exponent x + 1)"
    using bx(2) by'(1) assms by simp
  then have le: "float_exponent y \<le> float_exponent x"
    using powi2_mono[of "float_exponent x + 1" "float_exponent y"]
    by (cases "float_exponent y \<le> float_exponent x") auto
  show ?thesis
  proof (cases "float_exponent x = float_exponent y")
    case True
    have "x / 2 powi (float_exponent y - 52) \<le> y / 2 powi (float_exponent y - 52)"
      using assms(2) powi2_pos[of "float_exponent y - 52"] by (simp add: divide_right_mono)
    then have "round_half_even (x / 2 powi (float_exponent y - 52))
                 \<le> round_half_even (y / 2 powi (float_exponent y - 52))"
      by (rule round_half_even_mono)
    then show ?thesis using powi2_pos[of "float_exponent y - 52"]
      by (simp add: fl_powi[OF nz(1)] fl_powi[OF nz(2)] True)
  next
    case False
    then have "float_exponent y + 1 \<le> float_exponent x" using le by simp
    then have "(2::real) powi (float_exponent y + 1) \<le> 2 powi float_exponent x" by (rule powi2_mono)
    then show ?thesis using fl_neg_bounds(2)[OF x] fl_neg_bounds(1)[OF assms(1)] by linarith
  qed
qed

lemma fl_pos: "0 < x \<Longrightarrow> 0 < fl x"
  using fl_pos_bounds(1)[of x] powi2_pos[of "float_exponent x"] by linarith

lemma fl_neg: "x < 0 \<Longrightarrow> fl x < 0"
  using fl_neg_bounds(2)[of x] powi2_pos[of "float_exponent x"] by linarith

lemma fl_zero: "fl 0 = 0"
  by (simp add: fl_def)

lemma fl_mono:
  assumes "x \<le> y" shows "fl x \<le> fl y"
proof -
  consider "0 < x" | "y < 0" | "x \<le> 0" "0 \<le> y" by linarith
  then show ?thesis
  proof cases
    case 1 then show ?thesis using assms by (rule fl_mono_pos)
  next
    case 2 then show ?thesis using assms by (rule fl_mono_neg)
  next
    case 3
    have "fl x \<le> 0" using 3(1) fl_neg[of x] fl_zero by (cases "x = 0") auto
    moreover have "0 \<le> fl y" using 3(2) fl_pos[of y] fl_zero by (cases "y = 0") auto
    ultimately show ?thesis by linarith
  qed
qed

lemma py_round_mono: "x \<le> y \<Longrightarrow> py_round p x \<le> py_round p y"
  unfolding py_round_def
  by (intro fl_mono divide_right_mono) (simp_all add: round_half_even_mono mult_right_mono)

lemma py_round_zero: "py_round p 0 = 0"
  by (simp add: py_round_def round_half_even_def fl_zero)

text \<open>Some floats: the dyadic literals are exact, and the decimal ones are near.\<close>

lemma fl_exact: "fl (1 / 4) = 1 / 4" "fl (1 / 2) = 1 / 2" "fl (3 / 4) = 3 / 4" "fl (7 / 8) = 7 / 8"
  by code_simp+

lemma fl_literals: "fl 0.1 \<le> 1 / 2" "3 / 4 < fl 0.8" "7 / 8 < fl 0.9"
  by code_simp+

section \<open>The risk gate: evaluation of the model on examples\<close>

lemmas risk_eval = RiskManager_init_def RiskConfig_default_def TradingConfig_default_def
  TradingStats_init_def get_daily_reset_time_def get_hourly_reset_time_def
  assess_trade_risk_def assess_trade_risk_body_def assess_all_def refresh_def
  check_daily_reset_def check_hourly_reset_def update_peak_balance_def
  assess_balance_risk_def assess_daily_risk_def assess_consecutive_risk_def
  assess_frequency_risk_def assess_drawdown_risk_def assess_signal_risk_def
  decide_def rejected_outright_def current_drawdown_def get_daily_trade_count_def
  signal_example_def manager_example_def Let_def resume_trading_def
  run_down_manager_def

section \<open>The risk gate: exceptions inside the assessment\<close>

lemma refresh_balance: "current_balance (refresh balance now rm) = balance"
  by (simp add: refresh_def check_hourly_reset_def check_daily_reset_def update_peak_balance_def)

lemma assess_all_raises: "assess_all signal rm = Inl e \<longleftrightarrow> e = ZeroDivisionError \<and> current_balance rm = 0"
  by (auto simp: assess_all_def assess_balance_risk_def Let_def split: sum.splits prod.splits if_splits)

lemma body_raises:
  "fst (assess_trade_risk_body signal balance now rm) = Inl e \<longleftrightarrow>
     e = ZeroDivisionError \<and> balance = 0
     \<and> \<not> (trading_paused (refresh balance now rm) \<and> now < pause_until (refresh balance now rm))"
  using refresh_balance[of balance now rm]
  by (auto simp: assess_trade_risk_body_def Let_def assess_all_raises resume_trading_def)

text \<open>
  C9. \<^verbatim>\<open>assess_trade_risk\<close> is total, and whenever a step of its body raises an
  exception \<open>e\<close> the call returns REJECTED with stake 0, risk level EXTREME, score
  100 and the single reason \<^verbatim>\<open>Risk assessment error:\<close> followed by the message of
  \<open>e\<close>; the manager is left as the body left it when it raised. (By
  \<open>body_raises\<close> the only exception of the body is the division by a zero balance.)
\<close>

theorem assess_trade_risk_never_raises:
  assumes "fst (assess_trade_risk_body signal balance now rm) = Inl e"
  shows "fst (assess_trade_risk signal balance now rm)
           = \<lparr>decision = REJECTED, recommended_stake = 0, risk_level = EXTREME, risk_score = 100,
              rejection_reasons = [''Risk assessment error: '' @ error_message e], warnings = []\<rparr>
         \<and> snd (assess_trade_risk signal balance now rm) = snd (assess_trade_risk_body signal balance now rm)"
  using assms
  by (cases "assess_trade_risk_body signal balance now rm")
     (simp add: assess_trade_risk_def rejected_outright_def)

theorem assess_trade_risk_never_raises_witness:
  "fst (assess_trade_risk_body signal_example 0 1700000000 manager_example) = Inl ZeroDivisionError
   \<and> fst (assess_trade_risk signal_example 0 1700000000 manager_example)
       = \<lparr>decision = REJECTED, recommended_stake = 0, risk_level = EXTREME, risk_score = 100,
          rejection_reasons = [''Risk assessment error: float division by zero''], warnings = []\<rparr>"
proof -
  have h: "fst (assess_trade_risk_body signal_example 0 1700000000 manager_example) = Inl ZeroDivisionError"
    by (simp add: body_raises refresh_def check_hourly_reset_def check_daily_reset_def
        update_peak_balance_def manager_example_def RiskManager_init_def)
  from assess_trade_risk_never_raises[OF h] h show ?thesis by (simp add: error_message_def)
qed

section \<open>The risk gate: the decision by score\<close>

lemma example_assessment:
  "fst (assess_trade_risk signal_example 5 1700000000 manager_example)
     = \<lparr>decision = APPROVED, recommended_stake = fl 0.24, risk_level = LOW, risk_score = 5,
        rejection_reasons = [], warnings = [''Very short duration signal'']\<rparr>"
  by code_simp

lemma example_manager:
  "\<not> trading_paused manager_example" "max_stake (trading_config manager_example) = 0.25"
  "max_stake (trading_config run_down_manager) = 0.25"
  by (simp_all add: risk_eval)

lemma fl_024: "fl 0.24 < 0.25"
  by code_simp

text \<open>
  C3, as stated, fails for scores below 25: with the default configuration, a balance
  of 5 and a three-tick signal of confidence 0.8, nothing is rejected, the manager is
  not paused, the score is 5 and the decision is APPROVED, but the recommended stake
  is the float 0.24 and not the full stake 0.25.
\<close>

theorem small_score_reduces_stake:
  "decision (fst (assess_trade_risk signal_example 5 1700000000 manager_example)) = APPROVED
   \<and> rejection_reasons (fst (assess_trade_risk signal_example 5 1700000000 manager_example)) = []
   \<and> risk_score (fst (assess_trade_risk signal_example 5 1700000000 manager_example)) = 5
   \<and> \<not> trading_paused manager_example
   \<and> max_stake (trading_config manager_example) = 0.25
   \<and> recommended_stake (fst (assess_trade_risk signal_example 5 1700000000 manager_example)) = fl 0.24
   \<and> recommended_stake (fst (assess_trade_risk signal_example 5 1700000000 manager_example)) < 0.25"
  using fl_024 by (simp add: example_assessment example_manager)

lemma refresh_config:
  "trading_config (refresh balance now rm) = trading_config rm"
  "risk_config (refresh balance now rm) = risk_config rm"
  by (simp_all add: refresh_def check_hourly_reset_def check_daily_reset_def update_peak_balance_def)

text \<open>
  From a score of 50 the stake multiplier, computed in floats, is at most 0.5 and so
  below the float 0.8; from a score of 25 it is at most 0.75 and so below the float 0.9.
\<close>

lemma stake_multiplier_50:
  assumes "score \<ge> 50" shows "max (fl 0.1) (fsub 1 (fdiv score 100)) < fl 0.8"
proof -
  have "fl (1 / 2) \<le> fl (score / 100)" using assms by (intro fl_mono) simp
  then have "1 - fdiv score 100 \<le> 1 / 2" by (simp add: fdiv_def fl_exact)
  then have "fl (1 - fdiv score 100) \<le> fl (1 / 2)" by (rule fl_mono)
  then have "fsub 1 (fdiv score 100) \<le> 1 / 2" by (simp add: fsub_def fl_exact)
  then show ?thesis using fl_literals(1,2) by (simp add: max_def)
qed

lemma stake_multiplier_25:
  assumes "score \<ge> 25" shows "max (fl 0.1) (fsub 1 (fdiv score 100)) < fl 0.9"
proof -
  have "fl (1 / 4) \<le> fl (score / 100)" using assms by (intro fl_mono) simp
  then have "1 - fdiv score 100 \<le> 3 / 4" by (simp add: fdiv_def fl_exact)
  then have "fl (1 - fdiv score 100) \<le> fl (3 / 4)" by (rule fl_mono)
  then have "fsub 1 (fdiv score 100) \<le> 3 / 4" by (simp add: fsub_def fl_exact)
  then show ?thesis using fl_literals(1,3) by (simp add: max_def)
qed

lemma decide_no_rejections:
  "decide lim0 score [] ws =
     \<lparr>decision = (if score \<ge> 75 then REJECTED else if score \<ge> 25 then REDUCED else APPROVED),
      recommended_stake =
        (if score \<ge> 75 then 0
         else py_round 2 (min (fmul lim0 (max (fl 0.1) (fsub 1 (fdiv score 100)))) lim0)),
      risk_level = (if score \<ge> 75 then EXTREME else if score \<ge> 50 then HIGH
                    else if score \<ge> 25 then MODERATE else LOW),
      risk_score = py_round 1 score,
      rejection_reasons = (if score \<ge> 75 then [''Risk score too high''] else []),
      warnings = ws\<rparr>"
  using stake_multiplier_50[of score] stake_multiplier_25[of score]
  by (simp add: decide_def Let_def py_round_zero)

text \<open>
  C3, amended. When the manager is not paused (or its pause has expired), no assessor
  raises and none rejects, with \<open>score\<close> the float sum of the six contributions in
  the order of the source: a score of at least 75 gives REJECTED, stake 0 and the
  reason \<^verbatim>\<open>Risk score too high\<close>; a score from 25 to below 75 gives REDUCED; a score
  below 25 gives APPROVED; and in both approving cases the recommended stake is the
  configured \<^verbatim>\<open>max_stake\<close> times \<open>max 0.1 (1 - score / 100)\<close>, computed in floats,
  clamped to \<^verbatim>\<open>max_stake\<close> and rounded to two decimals. So the stake of an APPROVED
  trade is scaled down as well; it never exceeds \<^verbatim>\<open>max_stake\<close> rounded to two
  decimals. The reported score is rounded to one decimal and all warnings are
  returned.
\<close>

theorem decision_by_score:
  assumes "rm1 = refresh balance now rm"
    and "\<not> (trading_paused rm1 \<and> now < pause_until rm1)"
    and "rm2 = (if trading_paused rm1 then resume_trading rm1 else rm1)"
    and "assess_balance_risk rm2 = Inr (s1, w1, [])"
    and "assess_daily_risk rm2 = (s2, w2, [])"
    and "assess_consecutive_risk rm2 = (s3, w3, [])"
    and "assess_frequency_risk rm2 = (s4, w4, [])"
    and "assess_drawdown_risk rm2 = (s5, w5, [])"
    and "assess_signal_risk signal = (s6, w6)"
    and "score = fadd (fadd (fadd (fadd (fadd (fadd 0 s1) s2) s3) s4) s5) s6"
    and "stake = py_round 2 (min (fmul (max_stake (trading_config rm))
                                       (max (fl 0.1) (fsub 1 (fdiv score 100))))
                                 (max_stake (trading_config rm)))"
    and "r = fst (assess_trade_risk signal balance now rm)"
  shows "(score \<ge> 75 \<longrightarrow> decision r = REJECTED \<and> recommended_stake r = 0
                          \<and> rejection_reasons r = [''Risk score too high''])
       \<and> (25 \<le> score \<and> score < 75 \<longrightarrow> decision r = REDUCED \<and> recommended_stake r = stake
                          \<and> rejection_reasons r = [])
       \<and> (score < 25 \<longrightarrow> decision r = APPROVED \<and> recommended_stake r = stake
                          \<and> rejection_reasons r = [])
       \<and> stake \<le> py_round 2 (max_stake (trading_config rm))
       \<and> risk_score r = py_round 1 score
       \<and> warnings r = w1 @ w2 @ w3 @ w4 @ w5 @ w6"
proof -
  have cfg: "trading_config rm2 = trading_config rm"
    using assms(1,3) by (simp add: refresh_config resume_trading_def)
  have all: "assess_all signal rm2
               = Inr (decide (max_stake (trading_config rm)) score [] (w1 @ w2 @ w3 @ w4 @ w5 @ w6))"
    using assms(4-10) by (simp add: assess_all_def cfg)
  have body: "assess_trade_risk_body signal balance now rm = (assess_all signal rm2, rm2)"
    using assms(1,2,3) by (auto simp: assess_trade_risk_body_def Let_def)
  have r: "r = decide (max_stake (trading_config rm)) score [] (w1 @ w2 @ w3 @ w4 @ w5 @ w6)"
    using assms(12) by (simp add: assess_trade_risk_def body all)
  have clamp: "stake \<le> py_round 2 (max_stake (trading_config rm))"
    unfolding assms(11) by (rule py_round_mono) simp
  show ?thesis unfolding r decide_no_rejections using assms(11) clamp by simp
qed

theorem decision_by_score_witness:
  "decision (fst (assess_trade_risk signal_example 5 1700000000 manager_example)) = APPROVED
   \<and> recommended_stake (fst (assess_trade_risk signal_example 5 1700000000 manager_example)) = fl 0.24
   \<and> decision (fst (assess_trade_risk signal_example 2.5 1700000000 manager_example)) = REDUCED
   \<and> recommended_stake (fst (assess_trade_risk signal_example 2.5 1700000000 manager_example)) = fl 0.19
   \<and> decision (fst (assess_trade_risk signal_example 2.5 1700000000 run_down_manager)) = REJECTED
   \<and> recommended_stake (fst (assess_trade_risk signal_example 2.5 1700000000 run_down_manager)) = 0
   \<and> rejection_reasons (fst (assess_trade_risk signal_example 2.5 1700000000 run_down_manager))
       = [''Risk score too high'']"
proof -
  let ?t = "1700000000 :: real"
  let ?a = "refresh 5 ?t manager_example"
  let ?b = "refresh 2.5 ?t manager_example"
  let ?c = "refresh 2.5 ?t run_down_manager"
  have a: "\<not> (trading_paused ?a \<and> ?t < pause_until ?a)"
    "assess_balance_risk (if trading_paused ?a then resume_trading ?a else ?a) = Inr (0, [], [])"
    "assess_daily_risk (if trading_paused ?a then resume_trading ?a else ?a) = (0, [], [])"
    "assess_consecutive_risk (if trading_paused ?a then resume_trading ?a else ?a) = (0, [], [])"
    "assess_frequency_risk (if trading_paused ?a then resume_trading ?a else ?a) = (0, [], [])"
    "assess_drawdown_risk (if trading_paused ?a then resume_trading ?a else ?a) = (0, [], [])"
    by code_simp+
  have b: "\<not> (trading_paused ?b \<and> ?t < pause_until ?b)"
    "assess_balance_risk (if trading_paused ?b then resume_trading ?b else ?b)
       = Inr (20, [''Balance approaching minimum threshold''], [])"
    "assess_daily_risk (if trading_paused ?b then resume_trading ?b else ?b) = (0, [], [])"
    "assess_consecutive_risk (if trading_paused ?b then resume_trading ?b else ?b) = (0, [], [])"
    "assess_frequency_risk (if trading_paused ?b then resume_trading ?b else ?b) = (0, [], [])"
    "assess_drawdown_risk (if trading_paused ?b then resume_trading ?b else ?b) = (0, [], [])"
    by code_simp+
  have c: "\<not> (trading_paused ?c \<and> ?t < pause_until ?c)"
    "assess_balance_risk (if trading_paused ?c then resume_trading ?c else ?c)
       = Inr (20, [''Balance approaching minimum threshold''], [])"
    "assess_daily_risk (if trading_paused ?c then resume_trading ?c else ?c)
       = (30, [''Approaching daily loss limit''], [])"
    "assess_consecutive_risk (if trading_paused ?c then resume_trading ?c else ?c)
       = (25, [''One loss away from consecutive loss limit''], [])"
    "assess_frequency_risk (if trading_paused ?c then resume_trading ?c else ?c) = (0, [], [])"
    "assess_drawdown_risk (if trading_paused ?c then resume_trading ?c else ?c) = (0, [], [])"
    by code_simp+
  have s: "assess_signal_risk signal_example = (5, [''Very short duration signal''])"
    by code_simp
  have sa: "fadd (fadd (fadd (fadd (fadd (fadd 0 0) 0) 0) 0) 0) 5 = 5"
    and sb: "fadd (fadd (fadd (fadd (fadd (fadd 0 20) 0) 0) 0) 0) 5 = 25"
    and sc: "fadd (fadd (fadd (fadd (fadd (fadd 0 20) 30) 25) 0) 0) 5 = 80"
    by code_simp+
  have ta: "py_round 2 (min (fmul 0.25 (max (fl 0.1) (fsub 1 (fdiv 5 100)))) 0.25) = fl 0.24"
    and tb: "py_round 2 (min (fmul 0.25 (max (fl 0.1) (fsub 1 (fdiv 25 100)))) 0.25) = fl 0.19"
    by code_simp+
  note A = decision_by_score[OF refl a(1) refl a(2-6) s refl refl refl, unfolded example_manager sa ta]
  note B = decision_by_score[OF refl b(1) refl b(2-6) s refl refl refl, unfolded example_manager sb tb]
  note C = decision_by_score[OF refl c(1) refl c(2-6) s refl refl refl, unfolded example_manager sc]
  have 1: "decision (fst (assess_trade_risk signal_example 5 ?t manager_example)) = APPROVED
           \<and> recommended_stake (fst (assess_trade_risk signal_example 5 ?t manager_example)) = fl 0.24"
    using A by simp
  have 2: "decision (fst (assess_trade_risk signal_example 2.5 ?t manager_example)) = REDUCED
           \<and> recommended_stake (fst (assess_trade_risk signal_example 2.5 ?t manager_example)) = fl 0.19"
    using B by simp
  have 3: "decision (fst (assess_trade_risk signal_example 2.5 ?t run_down_manager)) = REJECTED
           \<and> recommended_stake (fst (assess_trade_risk signal_example 2.5 ?t run_down_manager)) = 0
           \<and> rejection_reasons (fst (assess_trade_risk signal_example 2.5 ?t run_down_manager))
               = [''Risk score too high'']"
    using C by simp
  show ?thesis using 1 2 3 by simp
qed

end
